theory Spec2Isabelle
  imports Main "HOL-Library.Char_ord" "HOL-Library.List_Lexorder" "HOL-Library.Sublist"
begin

section \<open>Graph\_JRE\_Job.py: selection of one job's JES2 resource series\<close>

text \<open>
  The script \<^verbatim>\<open>src/zOS-PFA/Graph_JRE_Job.py\<close> reads an observation file and a capacity
  file with pandas, normalises the job name and the resource given on the command line,
  and builds in \<^verbatim>\<open>process_data\<close> the data frame that is then plotted. This theory embeds
  the script from the two arguments and the two loaded files up to the value returned by
  \<^verbatim>\<open>process_data\<close>; the plotting that follows does not change this value.

  Modelling decisions, each following the source:
  \<^item> Python \<^verbatim>\<open>str\<close> is \<^typ>\<open>string\<close>; the order on strings is the lexicographic order
    on character codes, as Python compares \<^verbatim>\<open>str\<close> values. The text handled is the
    ASCII text of the PFA data files and of the command line.
  \<^item> A data frame is the list of its rows in index order. The rows of the observation
    file carry the seven columns of \<^verbatim>\<open>asid_header_data\<close>, typed by
    \<^verbatim>\<open>data_types_dict\<close> (line 44); the rows of the capacity file carry the two columns
    of \<^verbatim>\<open>capacity_header_data\<close>, typed by \<^verbatim>\<open>capacity_types_dict\<close> (line 45). The
    call of \<^verbatim>\<open>pd.read_csv\<close> itself is the loader and is not part of the embedding: a
    cell of a \<^verbatim>\<open>str\<close> column is a string and a cell of an \<^verbatim>\<open>int\<close> column an integer.
  \<^item> Every \<^verbatim>\<open>raise\<close> and every failing library call is a value \<open>Inl e\<close>.
  \<^item> The process-wide variables \<^verbatim>\<open>jobName\<close>, \<^verbatim>\<open>key\<close> and \<^verbatim>\<open>user_key\<close> that
    \<^verbatim>\<open>process_data\<close> reads are passed to it as arguments.
\<close>

subsection \<open>Data\<close>

text \<open>Lines 40, 41 and 47.\<close>

definition keys :: "string \<rightharpoonup> string" where
  "keys = map_of [(''JQE'', ''Q''), (''SPOOL'', ''S''), (''BERT'', ''B''), (''JOE'', ''J'')]"

definition user_keys :: "string list" where
  "user_keys = [''JQE'', ''SPOOL'', ''BERT'', ''JOE'']"

definition COLUMN_CHAR_LEN :: nat where
  "COLUMN_CHAR_LEN = 8"

text \<open>One row of the capacity file.\<close>

record capacity_row =
  Resource :: string
  Capacity :: int

text \<open>
  One row of the observation frame. The type of the \<^verbatim>\<open>Date_Time\<close> column is a parameter:
  it is \<^verbatim>\<open>str\<close> as loaded and a timestamp after line 130.
\<close>

record 'd obs =
  Key :: string
  JobName :: string
  TaskId :: string
  Start_Time :: string
  STCK_Time :: int
  Current_Usage :: int
  Date_Time :: 'd

text \<open>
  Line 121 adds the column \<^verbatim>\<open>Capacity\<close>. Its type is a parameter as well: float64 when
  it is created and filled, \<^verbatim>\<open>int\<close> after line 129. From here on \<open>Capacity\<close> is the
  column of the observation frame and \<open>capacity_row.Capacity\<close> the one of the capacity file.
\<close>

record ('d, 'c) frame = "'d obs" +
  Capacity :: 'c

text \<open>
  The float64 values that occur in the \<^verbatim>\<open>Capacity\<close> column: \<^verbatim>\<open>np.nan\<close>, and the
  doubles that integers are converted to, which are integers themselves.
\<close>

datatype float64 = NaN | F64 int

text \<open>A cell of \<^verbatim>\<open>data_file.values\<close>, an array of Python objects.\<close>

datatype pyobj = PyStr string | PyInt int

text \<open>
  The exceptions of the modelled part: the two \<^verbatim>\<open>raise Exception(...)\<close> of lines 92
  and 116, named after their messages, and the exceptions of Python and pandas.
\<close>

datatype error =
    ResourceDoesNotExist
  | JobNameDoesNotExist
  | KeyError
  | IndexError
  | ValueError

subsection \<open>Strings\<close>

text \<open>\<^verbatim>\<open>str.upper\<close> and \<^verbatim>\<open>str.ljust\<close> on ASCII text.\<close>

definition upper_char :: "char \<Rightarrow> char" where
  "upper_char c =
     (case map_of (zip ''abcdefghijklmnopqrstuvwxyz'' ''ABCDEFGHIJKLMNOPQRSTUVWXYZ'') c of
        Some u \<Rightarrow> u
      | None \<Rightarrow> c)"

definition upper :: "string \<Rightarrow> string" where
  "upper s = map upper_char s"

definition ljust :: "string \<Rightarrow> nat \<Rightarrow> string" where
  "ljust s width = s @ replicate (width - length s) CHR '' ''"

subsection \<open>The float64 column\<close>

text \<open>
  Storing an integer in a float64 array converts it to the nearest double, ties to the
  even significand. A double has 53 significant bits, so an integer of at most 53 bits
  is kept and a longer one loses its low bits: with \<open>e\<close> the number of bits too many,
  \<open>q\<close> the leading 53 bits and \<open>r\<close> the \<open>e\<close> bits dropped, the significand is
  \<open>q\<close> or \<open>q + 1\<close>. \<open>bitlen\<close> is the number of bits of a positive integer. The
  integers here are the values of an \<^verbatim>\<open>int64\<close> column, far below the largest double.
\<close>

function bitlen :: "int \<Rightarrow> nat" where
  "bitlen i = (if i \<le> 0 then 0 else Suc (bitlen (i div 2)))"
  by pat_completeness auto
termination
  by (relation "measure nat") auto

declare bitlen.simps [simp del]

definition round_to_double :: "int \<Rightarrow> int" where
  "round_to_double i =
     (let a = \<bar>i\<bar> in
      if bitlen a \<le> 53 then i
      else
        let e = bitlen a - 53;
            q = a div 2 ^ e;
            r = a mod 2 ^ e;
            h = 2 ^ (e - 1);
            q' = (if h < r \<or> (r = h \<and> odd q) then q + 1 else q)
        in sgn i * (q' * 2 ^ e))"

definition float64_of_int :: "int \<Rightarrow> float64" where
  "float64_of_int i = F64 (round_to_double i)"

text \<open>
  \<^verbatim>\<open>Series.fillna(value, inplace=True)\<close> on the float64 column: every NaN cell receives
  the value, converted to float64.
\<close>

definition fillna :: "int \<Rightarrow> ('d, float64) frame list \<Rightarrow> ('d, float64) frame list" where
  "fillna v df =
     map (\<lambda>r. if Capacity r = NaN then r\<lparr>Capacity := float64_of_int v\<rparr> else r) df"

text \<open>
  \<^verbatim>\<open>astype(int)\<close> of the column is a cast from float64 to \<^verbatim>\<open>int64\<close>. pandas raises
  \<^verbatim>\<open>ValueError\<close> on a NaN cell. An integral double within the range of \<^verbatim>\<open>int64\<close> is
  converted exactly; for a double outside this range the cast overflows and gives the
  least \<^verbatim>\<open>int64\<close>, \<open>- 2 ^ 63\<close>. The double of an \<^verbatim>\<open>int64\<close> capacity is outside the range
  exactly when it is \<open>2 ^ 63\<close>, that is for the capacities from \<open>2 ^ 63 - 512\<close> on.
\<close>

definition int64_of_double :: "int \<Rightarrow> int" where
  "int64_of_double v = (if - (2 ^ 63) \<le> v \<and> v < 2 ^ 63 then v else - (2 ^ 63))"

fun astype_int :: "('d, float64) frame list \<Rightarrow> error + ('d, int) frame list" where
  "astype_int [] = Inr []"
| "astype_int (r # rs) =
     (case Capacity r of
        NaN \<Rightarrow> Inl ValueError
      | F64 v \<Rightarrow>
          (case astype_int rs of
             Inl e \<Rightarrow> Inl e
           | Inr rs' \<Rightarrow>
               Inr (\<lparr>Key = Key r, JobName = JobName r, TaskId = TaskId r,
                     Start_Time = Start_Time r, STCK_Time = STCK_Time r,
                     Current_Usage = Current_Usage r, Date_Time = Date_Time r,
                     Capacity = int64_of_double v\<rparr> # rs')))"

subsection \<open>Timestamps\<close>

text \<open>
  Line 130 converts the \<^verbatim>\<open>Date_Time\<close> column with
  \<^verbatim>\<open>pd.to_datetime(..., format='%Y%m%d%H%M%S')\<close>; the \<^verbatim>\<open>astype(str)\<close> before it leaves a
  \<^verbatim>\<open>str\<close> column as it is. The conversion works cell by cell and raises at the first cell
  it cannot convert. The conversion of one cell is the library's and enters the model as
  the parameter \<open>to_datetime\<close>, so that what is proved below holds whatever strings the
  library accepts.
\<close>

fun to_datetime_column ::
  "(string \<Rightarrow> error + 't) \<Rightarrow> (string, 'c) frame list \<Rightarrow> error + ('t, 'c) frame list" where
  "to_datetime_column to_datetime [] = Inr []"
| "to_datetime_column to_datetime (r # rs) =
     (case to_datetime (Date_Time r) of
        Inl e \<Rightarrow> Inl e
      | Inr t \<Rightarrow>
          (case to_datetime_column to_datetime rs of
             Inl e \<Rightarrow> Inl e
           | Inr rs' \<Rightarrow>
               Inr (\<lparr>Key = Key r, JobName = JobName r, TaskId = TaskId r,
                     Start_Time = Start_Time r, STCK_Time = STCK_Time r,
                     Current_Usage = Current_Usage r, Date_Time = t,
                     Capacity = Capacity r\<rparr> # rs')))"

text \<open>
  For the concrete inputs below, the conversion of the fixed-width form that the PFA check
  writes: fourteen decimal digits \<^verbatim>\<open>YYYYMMDDHHMMSS\<close> that name a date of the Gregorian
  calendar and a time of day. This instance answers every other string with
  \<^verbatim>\<open>ValueError\<close>; it is applied to strings of the fixed-width form only.
\<close>

record timestamp =
  year :: nat
  month :: nat
  day :: nat
  hour :: nat
  minute :: nat
  second :: nat

definition digit :: "char \<Rightarrow> nat option" where
  "digit c = map_of (zip ''0123456789'' [0, 1, 2, 3, 4, 5, 6, 7, 8, 9]) c"

fun number :: "nat \<Rightarrow> string \<Rightarrow> nat option" where
  "number n [] = Some n"
| "number n (c # cs) = (case digit c of None \<Rightarrow> None | Some d \<Rightarrow> number (10 * n + d) cs)"

definition leap_year :: "nat \<Rightarrow> bool" where
  "leap_year y = (y mod 4 = 0 \<and> (y mod 100 \<noteq> 0 \<or> y mod 400 = 0))"

definition days_in_month :: "nat \<Rightarrow> nat \<Rightarrow> nat" where
  "days_in_month y m =
     (if m = 2 then (if leap_year y then 29 else 28)
      else if m = 4 \<or> m = 6 \<or> m = 9 \<or> m = 11 then 30
      else 31)"

definition to_datetime_YmdHMS :: "string \<Rightarrow> error + timestamp" where
  "to_datetime_YmdHMS s =
     (if length s \<noteq> 14 then Inl ValueError
      else
        (case (number 0 (take 4 s), number 0 (take 2 (drop 4 s)), number 0 (take 2 (drop 6 s)),
               number 0 (take 2 (drop 8 s)), number 0 (take 2 (drop 10 s)),
               number 0 (take 2 (drop 12 s))) of
           (Some Y, Some m, Some d, Some H, Some M, Some S) \<Rightarrow>
             (if 1 \<le> Y \<and> 1 \<le> m \<and> m \<le> 12 \<and> 1 \<le> d \<and> d \<le> days_in_month Y m
                 \<and> H \<le> 23 \<and> M \<le> 59 \<and> S \<le> 59
              then Inr \<lparr>year = Y, month = m, day = d, hour = H, minute = M, second = S\<rparr>
              else Inl ValueError)
         | _ \<Rightarrow> Inl ValueError))"

subsection \<open>\<^verbatim>\<open>get_latest_time\<close> (lines 164 to 177)\<close>

text \<open>
  \<^verbatim>\<open>times_dict\<close> is a Python dictionary, which keeps its keys in the order of their
  first insertion: an association list. \<open>count_time\<close> is one pass through the body of
  the loop of lines 169 to 173.
\<close>

fun count_time :: "(string \<times> nat) list \<Rightarrow> string \<Rightarrow> (string \<times> nat) list" where
  "count_time [] t = [(t, 1)]"
| "count_time ((k, n) # times_dict) t =
     (if k = t then (k, n + 1) # times_dict else (k, n) # count_time times_dict t)"

text \<open>
  Python's \<^verbatim>\<open>max\<close> over a sequence with first element \<open>k\<close> and rest \<open>ks\<close>: the current
  maximum is replaced by an item that is greater.
\<close>

definition py_max :: "'a::linorder \<Rightarrow> 'a list \<Rightarrow> 'a" where
  "py_max k ks = fold (\<lambda>item max_item. if max_item < item then item else max_item) ks k"

text \<open>
  The function reads the column \<^verbatim>\<open>Start_Time\<close> only and selects rows, so it is defined
  for the rows of every stage of the frame. Under \<^verbatim>\<open>len(times_dict) > 1\<close> the dictionary
  has a first key; the case of no key is there for totality only.
\<close>

definition get_latest_time :: "('d, 'z) obs_scheme list \<Rightarrow> ('d, 'z) obs_scheme list" where
  "get_latest_time our_data =
     (let list_data = map Start_Time our_data;
          times_dict = foldl count_time [] list_data
      in if length times_dict > 1 then
           (case map fst times_dict of
              [] \<Rightarrow> our_data
            | k # ks \<Rightarrow>
                (let latest_time = py_max k ks
                 in filter (\<lambda>r. Start_Time r = latest_time) our_data))
         else our_data)"

subsection \<open>\<^verbatim>\<open>process_data\<close> (lines 125 to 134)\<close>

text \<open>\<^verbatim>\<open>.values[0]\<close>: the first element, \<^verbatim>\<open>IndexError\<close> on an empty array.\<close>

definition values0 :: "'a list \<Rightarrow> error + 'a" where
  "values0 xs = (case xs of [] \<Rightarrow> Inl IndexError | x # _ \<Rightarrow> Inr x)"

text \<open>
  Line 126 is \<open>the_capacity_of\<close>: the \<^verbatim>\<open>Capacity\<close> cells of the rows of the capacity file
  whose \<^verbatim>\<open>Resource\<close> is \<^verbatim>\<open>user_key\<close>, and of these the first.
  Line 128 fills the column through \<^verbatim>\<open>the_data['Capacity']\<close>, which in the pandas this
  script was written for is a view of the frame. The printing of line 133 does not change
  the frame.
\<close>

definition the_capacity_of :: "string \<Rightarrow> capacity_row list \<Rightarrow> error + int" where
  "the_capacity_of user_key capacity_file =
     values0 (map capacity_row.Capacity (filter (\<lambda>c. Resource c = user_key) capacity_file))"

definition process_data ::
  "(string \<Rightarrow> error + 't) \<Rightarrow> string \<Rightarrow> string \<Rightarrow> string \<Rightarrow>
   (string, float64) frame list \<Rightarrow> capacity_row list \<Rightarrow> error + ('t, int) frame list" where
  "process_data to_datetime user_key key jobName data_file capacity_file =
     (case the_capacity_of user_key capacity_file of
        Inl e \<Rightarrow> Inl e
      | Inr the_capacity \<Rightarrow>
          (let the_data = filter (\<lambda>r. Key r = key \<and> JobName r = jobName) data_file;
               the_data = fillna the_capacity the_data
           in case astype_int the_data of
                Inl e \<Rightarrow> Inl e
              | Inr the_data \<Rightarrow>
                  (case to_datetime_column to_datetime the_data of
                     Inl e \<Rightarrow> Inl e
                   | Inr the_data \<Rightarrow> Inr (get_latest_time the_data))))"

subsection \<open>The script up to the call of \<^verbatim>\<open>process_data\<close>\<close>

text \<open>
  \<^verbatim>\<open>data_file.values\<close> at line 115 is the array of all cells of the seven columns, and
  \<^verbatim>\<open>jobName in data_file.values\<close> asks whether any cell is equal to \<^verbatim>\<open>jobName\<close>. A cell
  of an \<^verbatim>\<open>int\<close> column is never equal to a \<^verbatim>\<open>str\<close>.
\<close>

definition values_of :: "string obs list \<Rightarrow> pyobj list list" where
  "values_of df =
     map (\<lambda>r. [PyStr (Key r), PyStr (JobName r), PyStr (TaskId r), PyStr (Start_Time r),
                PyInt (STCK_Time r), PyInt (Current_Usage r), PyStr (Date_Time r)]) df"

definition py_in :: "string \<Rightarrow> pyobj list list \<Rightarrow> bool" where
  "py_in x arr = (PyStr x \<in> set (concat arr))"

text \<open>Lines 111 and 112.\<close>

definition pad :: "string \<Rightarrow> string" where
  "pad jobName =
     (if length jobName < COLUMN_CHAR_LEN then ljust jobName COLUMN_CHAR_LEN else jobName)"

text \<open>Line 121: \<^verbatim>\<open>data_file['Capacity'] = np.nan\<close>.\<close>

definition add_Capacity :: "string obs list \<Rightarrow> (string, float64) frame list" where
  "add_Capacity df =
     map (\<lambda>r. \<lparr>Key = Key r, JobName = JobName r, TaskId = TaskId r,
                Start_Time = Start_Time r, STCK_Time = STCK_Time r,
                Current_Usage = Current_Usage r, Date_Time = Date_Time r,
                Capacity = NaN\<rparr>) df"

text \<open>
  The selection as a function of the two loaded files and of the two arguments
  \<^verbatim>\<open>sys.argv[3]\<close> (job name) and \<^verbatim>\<open>sys.argv[4]\<close> (resource): lines 53 to 56, 91, 92, 111
  to 121 and the call of line 180. Its value is what \<^verbatim>\<open>process_data\<close> returns, the series
  that is plotted. The script has no name for it; \<open>select\<close> is the name of this operation
  in the specification. Line 119 is a dictionary access and raises \<^verbatim>\<open>KeyError\<close> on a
  missing key.
\<close>

definition select ::
  "(string \<Rightarrow> error + 't) \<Rightarrow> string obs list \<Rightarrow> capacity_row list \<Rightarrow> string \<Rightarrow> string \<Rightarrow>
   error + ('t, int) frame list" where
  "select to_datetime data_file capacity_file job_name resource =
     (let jobName = upper job_name;
          key = upper resource
      in if key \<notin> set user_keys then Inl ResourceDoesNotExist
         else
           (let jobName = pad jobName
            in if \<not> py_in jobName (values_of data_file) then Inl JobNameDoesNotExist
               else
                 (let user_key = key
                  in case keys user_key of
                       None \<Rightarrow> Inl KeyError
                     | Some key \<Rightarrow>
                         (let user_key = ljust user_key COLUMN_CHAR_LEN;
                              data_file = add_Capacity data_file
                          in process_data to_datetime user_key key jobName
                               data_file capacity_file))))"

subsection \<open>Vocabulary of the properties\<close>

text \<open>
  The rows that line 127 selects for the arguments \<open>job_name\<close> and \<open>resource\<close>: those
  whose \<^verbatim>\<open>Key\<close> is the storage code of the resource and whose \<^verbatim>\<open>JobName\<close> is the upper-cased
  and padded job name.
\<close>

definition matching :: "string obs list \<Rightarrow> string \<Rightarrow> string \<Rightarrow> string obs list" where
  "matching data_file job_name resource =
     filter (\<lambda>r. keys (upper resource) = Some (Key r) \<and> JobName r = pad (upper job_name))
       data_file"

text \<open>
  \<open>row_of to_datetime s r\<close>: the row \<open>r\<close> of the returned frame is the row \<open>s\<close> of the
  observation file with its \<^verbatim>\<open>Date_Time\<close> converted, every other column as it was.
\<close>

definition row_of :: "(string \<Rightarrow> error + 't) \<Rightarrow> string obs \<Rightarrow> ('t, int) frame \<Rightarrow> bool" where
  "row_of to_datetime s r =
     (Key r = Key s \<and> JobName r = JobName s \<and> TaskId r = TaskId s \<and>
      Start_Time r = Start_Time s \<and> STCK_Time r = STCK_Time s \<and>
      Current_Usage r = Current_Usage s \<and> to_datetime (Date_Time s) = Inr (Date_Time r))"

text \<open>
  \<open>stored_capacity c\<close>: what the \<^verbatim>\<open>Capacity\<close> column holds after lines 121, 128 and 129
  when the capacity looked up is \<open>c\<close>: the integer has gone through a float64 cell and back
  to \<^verbatim>\<open>int64\<close>. \<open>filled c s\<close> is the row \<open>s\<close> of the observation file after these lines.
\<close>

definition stored_capacity :: "int \<Rightarrow> int" where
  "stored_capacity c = int64_of_double (round_to_double c)"

definition filled :: "int \<Rightarrow> string obs \<Rightarrow> (string, int) frame" where
  "filled c s =
     \<lparr>Key = Key s, JobName = JobName s, TaskId = TaskId s, Start_Time = Start_Time s,
      STCK_Time = STCK_Time s, Current_Usage = Current_Usage s, Date_Time = Date_Time s,
      Capacity = stored_capacity c\<rparr>"

text \<open>
  The errors that the specification files under NotFound: the job name is absent from the
  data (the exception of line 116) or the resource is absent from the capacity table (the
  \<^verbatim>\<open>IndexError\<close> of line 126).
\<close>

definition NotFound :: "error \<Rightarrow> bool" where
  "NotFound e = (e = JobNameDoesNotExist \<or> e = IndexError)"

subsection \<open>Example inputs\<close>

text \<open>The observation rows and the capacity row of the end-to-end example.\<close>

definition row1 :: "string obs" where
  "row1 = \<lparr>Key = ''Q'', JobName = ''JOB1    '', TaskId = ''T1'', Start_Time = ''100'',
            STCK_Time = 1, Current_Usage = 500, Date_Time = ''20210101000000''\<rparr>"

definition row2 :: "string obs" where
  "row2 = \<lparr>Key = ''Q'', JobName = ''JOB1    '', TaskId = ''T1'', Start_Time = ''100'',
            STCK_Time = 1, Current_Usage = 600, Date_Time = ''20210101000100''\<rparr>"

definition row3 :: "string obs" where
  "row3 = \<lparr>Key = ''Q'', JobName = ''JOB1    '', TaskId = ''T2'', Start_Time = ''200'',
            STCK_Time = 2, Current_Usage = 50, Date_Time = ''20210101000200''\<rparr>"

definition jqe_1000 :: capacity_row where
  "jqe_1000 = \<lparr>Resource = ''JQE     '', capacity_row.Capacity = 1000\<rparr>"

text \<open>The third row as it is returned.\<close>

definition row3_selected :: "(timestamp, int) frame" where
  "row3_selected =
     \<lparr>Key = ''Q'', JobName = ''JOB1    '', TaskId = ''T2'', Start_Time = ''200'',
      STCK_Time = 2, Current_Usage = 50,
      Date_Time = \<lparr>year = 2021, month = 1, day = 1, hour = 0, minute = 2, second = 0\<rparr>,
      Capacity = 1000\<rparr>"

text \<open>
  A capacity row whose value is not a double, and the third row as it is returned with
  this capacity.
\<close>

definition jqe_big :: capacity_row where
  "jqe_big = \<lparr>Resource = ''JQE     '', capacity_row.Capacity = 9007199254740993\<rparr>"

definition row3_selected_big :: "(timestamp, int) frame" where
  "row3_selected_big =
     \<lparr>Key = ''Q'', JobName = ''JOB1    '', TaskId = ''T2'', Start_Time = ''200'',
      STCK_Time = 2, Current_Usage = 50,
      Date_Time = \<lparr>year = 2021, month = 1, day = 1, hour = 0, minute = 2, second = 0\<rparr>,
      Capacity = 9007199254740992\<rparr>"

text \<open>Two more capacity rows: a second row for \<^verbatim>\<open>JQE\<close> and a row for \<^verbatim>\<open>SPOOL\<close>.\<close>

definition jqe_2000 :: capacity_row where
  "jqe_2000 = \<lparr>Resource = ''JQE     '', capacity_row.Capacity = 2000\<rparr>"

definition spool_500 :: capacity_row where
  "spool_500 = \<lparr>Resource = ''SPOOL   '', capacity_row.Capacity = 500\<rparr>"

text \<open>
  A row of job \<^verbatim>\<open>JOBX\<close> whose task identifier reads \<^verbatim>\<open>JOBY\<close> padded to eight
  characters, and a row of job \<^verbatim>\<open>JOB1\<close> recorded for the resource \<^verbatim>\<open>SPOOL\<close>.
\<close>

definition row_jobx :: "string obs" where
  "row_jobx = \<lparr>Key = ''Q'', JobName = ''JOBX    '', TaskId = ''JOBY    '', Start_Time = ''100'',
                STCK_Time = 1, Current_Usage = 500, Date_Time = ''20210101000000''\<rparr>"

definition row_spool :: "string obs" where
  "row_spool = \<lparr>Key = ''S'', JobName = ''JOB1    '', TaskId = ''T1'', Start_Time = ''100'',
                 STCK_Time = 1, Current_Usage = 7, Date_Time = ''20210101000000''\<rparr>"

text \<open>A row of job \<^verbatim>\<open>JOB3\<close>, and this row as it is returned.\<close>

definition row_job3 :: "string obs" where
  "row_job3 = \<lparr>Key = ''Q'', JobName = ''JOB3    '', TaskId = ''T3'', Start_Time = ''300'',
                STCK_Time = 3, Current_Usage = 70, Date_Time = ''20210101000300''\<rparr>"

definition row_job3_selected :: "(timestamp, int) frame" where
  "row_job3_selected =
     \<lparr>Key = ''Q'', JobName = ''JOB3    '', TaskId = ''T3'', Start_Time = ''300'',
      STCK_Time = 3, Current_Usage = 70,
      Date_Time = \<lparr>year = 2021, month = 1, day = 1, hour = 0, minute = 3, second = 0\<rparr>,
      Capacity = 1000\<rparr>"

text \<open>The first two rows of the example as they are returned.\<close>

definition row1_selected :: "(timestamp, int) frame" where
  "row1_selected =
     \<lparr>Key = ''Q'', JobName = ''JOB1    '', TaskId = ''T1'', Start_Time = ''100'',
      STCK_Time = 1, Current_Usage = 500,
      Date_Time = \<lparr>year = 2021, month = 1, day = 1, hour = 0, minute = 0, second = 0\<rparr>,
      Capacity = 1000\<rparr>"

definition row2_selected :: "(timestamp, int) frame" where
  "row2_selected =
     \<lparr>Key = ''Q'', JobName = ''JOB1    '', TaskId = ''T1'', Start_Time = ''100'',
      STCK_Time = 1, Current_Usage = 600,
      Date_Time = \<lparr>year = 2021, month = 1, day = 1, hour = 0, minute = 1, second = 0\<rparr>,
      Capacity = 1000\<rparr>"

section \<open>Properties\<close>

subsection \<open>The cohort rule of \<^verbatim>\<open>get_latest_time\<close>\<close>

text \<open>
  The keys of \<^verbatim>\<open>times_dict\<close> are the distinct start times, so its length is their
  number, and Python's \<^verbatim>\<open>max\<close> of the keys is the greatest start time in the order of
  strings.
\<close>

lemma keys_count_time: "fst ` set (count_time d t) = insert t (fst ` set d)"
  by (induction d t rule: count_time.induct) auto

lemma distinct_count_time: "distinct (map fst d) \<Longrightarrow> distinct (map fst (count_time d t))"
proof (induction d t rule: count_time.induct)
  case (1 t)
  then show ?case by simp
next
  case (2 k n times_dict t)
  show ?case
  proof (cases "k = t")
    case True
    with 2 show ?thesis by simp
  next
    case False
    with 2 have "distinct (map fst (count_time times_dict t))" by simp
    moreover have "k \<notin> fst ` set (count_time times_dict t)"
      using 2 False by (simp add: keys_count_time)
    ultimately show ?thesis using False by simp
  qed
qed

lemma keys_times_dict:
  "fst ` set (foldl count_time d ts) = fst ` set d \<union> set ts"
  by (induction ts arbitrary: d) (simp_all add: keys_count_time)

lemma distinct_times_dict:
  "distinct (map fst d) \<Longrightarrow> distinct (map fst (foldl count_time d ts))"
  by (induction ts arbitrary: d) (simp_all add: distinct_count_time)

lemma length_times_dict: "length (foldl count_time [] ts) = card (set ts)"
proof -
  have "distinct (map fst (foldl count_time [] ts))"
    by (rule distinct_times_dict) simp
  then have "card (set (map fst (foldl count_time [] ts))) = length (map fst (foldl count_time [] ts))"
    by (rule distinct_card)
  then show ?thesis
    by (simp add: keys_times_dict)
qed

lemma py_max_Max: "py_max k ks = Max (set (k # ks))"
proof -
  have "(\<lambda>item max_item. if max_item < item then item else max_item) = (max :: 'a \<Rightarrow> 'a \<Rightarrow> 'a)"
    by (intro ext) (auto simp: max_def)
  then have "py_max k ks = fold max ks k"
    by (simp add: py_max_def)
  then show ?thesis
    by (simp only: Max.set_eq_fold)
qed

lemma get_latest_time_eq:
  "get_latest_time rows =
     (if 1 < card (Start_Time ` set rows)
      then filter (\<lambda>r. Start_Time r = Max (Start_Time ` set rows)) rows
      else rows)"
proof (cases "1 < card (Start_Time ` set rows)")
  case False
  then show ?thesis
    by (simp add: get_latest_time_def length_times_dict)
next
  case True
  let ?d = "foldl count_time [] (map Start_Time rows)"
  have len: "1 < length ?d"
    using True by (simp add: length_times_dict)
  then obtain k ks where ks: "map fst ?d = k # ks"
    by (cases "map fst ?d") auto
  have "set (map fst ?d) = Start_Time ` set rows"
    using keys_times_dict [of "[]" "map Start_Time rows"] by simp
  then have "set (k # ks) = Start_Time ` set rows"
    by (simp only: ks)
  then have "py_max k ks = Max (Start_Time ` set rows)"
    by (simp only: py_max_Max)
  then show ?thesis
    using True len ks by (simp add: get_latest_time_def Let_def)
qed

text \<open>
  Consequences: the function only removes rows, its result has a single start time, the
  greatest one, it keeps a row whenever there is one, and a second run changes nothing.
\<close>

lemma set_get_latest_time: "r \<in> set (get_latest_time rows) \<Longrightarrow> r \<in> set rows"
  by (auto simp: get_latest_time_eq split: if_splits)

lemma subseq_get_latest_time: "subseq (get_latest_time rows) rows"
  by (simp add: get_latest_time_eq)

lemma get_latest_time_Max:
  assumes "r \<in> set (get_latest_time rows)"
  shows "Start_Time r = Max (Start_Time ` set rows)"
proof (cases "1 < card (Start_Time ` set rows)")
  case True
  with assms show ?thesis by (simp add: get_latest_time_eq)
next
  case False
  from assms False have r: "r \<in> set rows" by (simp add: get_latest_time_eq)
  then have "Start_Time r \<in> Start_Time ` set rows" by simp
  moreover have "card (Start_Time ` set rows) \<le> 1" using False by simp
  ultimately have "Start_Time ` set rows = {Start_Time r}"
    by (metis card_1_singletonE card_gt_0_iff empty_iff finite_imageI finite_set le_antisym less_one not_le singletonD One_nat_def Suc_leI)
  then show ?thesis by simp
qed

lemma card_get_latest_time: "card (Start_Time ` set (get_latest_time rows)) \<le> 1"
proof -
  have "Start_Time ` set (get_latest_time rows) \<subseteq> {Max (Start_Time ` set rows)}"
    using get_latest_time_Max by blast
  then have "card (Start_Time ` set (get_latest_time rows)) \<le> card {Max (Start_Time ` set rows)}"
    by (intro card_mono) simp_all
  then show ?thesis by simp
qed

lemma get_latest_time_nonempty: "rows \<noteq> [] \<Longrightarrow> get_latest_time rows \<noteq> []"
proof (cases "1 < card (Start_Time ` set rows)")
  case False
  assume "rows \<noteq> []"
  with False show ?thesis by (simp add: get_latest_time_eq)
next
  case True
  assume ne: "rows \<noteq> []"
  have "Max (Start_Time ` set rows) \<in> Start_Time ` set rows"
    using ne by (intro Max_in) auto
  then obtain r where "r \<in> set rows" "Start_Time r = Max (Start_Time ` set rows)"
    by auto
  then have "r \<in> set (filter (\<lambda>r. Start_Time r = Max (Start_Time ` set rows)) rows)"
    by simp
  with True show ?thesis
    by (auto simp: get_latest_time_eq simp del: set_filter)
qed

lemma get_latest_time_idem: "get_latest_time (get_latest_time rows) = get_latest_time rows"
proof (cases "1 < card (Start_Time ` set rows)")
  case False
  then show ?thesis by (simp add: get_latest_time_eq)
next
  case True
  let ?m = "Max (Start_Time ` set rows)"
  have "Start_Time ` set (filter (\<lambda>r. Start_Time r = ?m) rows) \<subseteq> {?m}"
    by auto
  then have "card (Start_Time ` set (filter (\<lambda>r. Start_Time r = ?m) rows)) \<le> 1"
    by (metis card_mono card.empty card.insert finite.emptyI finite.insertI empty_iff One_nat_def)
  then show ?thesis
    using True by (simp add: get_latest_time_eq [of rows] get_latest_time_eq [of "filter _ _"])
qed

text \<open>
  The order is the one of the strings, not of the numbers they may spell: of the start
  times \<^verbatim>\<open>100\<close> and \<^verbatim>\<open>99\<close> the second is the greater.
\<close>

lemma start_time_order_is_lexicographic:
  "get_latest_time [row1\<lparr>Start_Time := ''100''\<rparr>, row2\<lparr>Start_Time := ''99''\<rparr>]
     = [row2\<lparr>Start_Time := ''99''\<rparr>]"
  by code_simp

text \<open>
  The function reads \<^verbatim>\<open>Start_Time\<close> only: two frames that are related row by row, with
  equal start times, are related after it as well.
\<close>

lemma list_all2_filter:
  "list_all2 R xs ys \<Longrightarrow> (\<And>x y. R x y \<Longrightarrow> P x = Q y) \<Longrightarrow>
   list_all2 R (filter P xs) (filter Q ys)"
  by (induction rule: list_all2_induct) auto

lemma list_all2_get_latest_time:
  assumes R: "list_all2 R xs ys"
    and st: "\<And>x y. R x y \<Longrightarrow> Start_Time x = Start_Time y"
  shows "list_all2 R (get_latest_time xs) (get_latest_time ys)"
proof -
  have "map Start_Time xs = map Start_Time ys"
    using R st by (induction rule: list_all2_induct) auto
  then have "set (map Start_Time xs) = set (map Start_Time ys)" by simp
  then have eq: "Start_Time ` set xs = Start_Time ` set ys" by simp
  show ?thesis
    unfolding get_latest_time_eq [of xs] get_latest_time_eq [of ys] eq
    using R st by (auto intro!: list_all2_filter)
qed

lemma list_all2_set2: "list_all2 P xs ys \<Longrightarrow> y \<in> set ys \<Longrightarrow> \<exists>x \<in> set xs. P x y"
  by (induction rule: list_all2_induct) auto

subsection \<open>The float64 column\<close>

text \<open>
  An integer of magnitude at most \<open>2 ^ 53\<close> is a double and is stored as it is. The
  greatest \<^verbatim>\<open>int64\<close> is not: its double is \<open>2 ^ 63\<close>, and the cast back overflows.
\<close>

lemma bitlen_le: "a < 2 ^ n \<Longrightarrow> bitlen a \<le> n"
proof (induction n arbitrary: a)
  case 0
  then show ?case by (simp add: bitlen.simps)
next
  case (Suc n)
  show ?case
  proof (cases "a \<le> 0")
    case True
    then show ?thesis by (simp add: bitlen.simps)
  next
    case False
    from Suc.prems have "a div 2 < 2 ^ n" by simp
    then have "bitlen (a div 2) \<le> n" by (rule Suc.IH)
    with False show ?thesis by (simp add: bitlen.simps [of a])
  qed
qed

lemma round_to_double_exact:
  assumes "\<bar>c\<bar> \<le> 2 ^ 53"
  shows "round_to_double c = c"
proof (cases "\<bar>c\<bar> < 2 ^ 53")
  case True
  then have "bitlen \<bar>c\<bar> \<le> 53" by (rule bitlen_le)
  then show ?thesis by (simp add: round_to_double_def)
next
  case False
  with assms have "c = 9007199254740992 \<or> c = - 9007199254740992" by auto
  then show ?thesis
    by (auto simp: round_to_double_def bitlen.simps)
qed

lemma stored_capacity_exact:
  assumes "\<bar>c\<bar> \<le> 2 ^ 53"
  shows "stored_capacity c = c"
proof -
  from assms have "- (2 ^ 63) \<le> c \<and> c < 2 ^ 63" by auto
  then show ?thesis
    by (simp add: stored_capacity_def round_to_double_exact [OF assms] int64_of_double_def)
qed

lemma stored_capacity_overflow:
  "stored_capacity 9223372036854775807 = - 9223372036854775808"
  by (simp add: stored_capacity_def round_to_double_def int64_of_double_def bitlen.simps)

subsection \<open>The capacity lookup\<close>

lemma the_capacity_of_first:
  assumes "\<forall>b \<in> set before. Resource b \<noteq> user_key" and "Resource c = user_key"
  shows "the_capacity_of user_key (before @ c # after) = Inr (capacity_row.Capacity c)"
proof -
  have "filter (\<lambda>c. Resource c = user_key) before = []"
    using assms(1) by (simp add: filter_empty_conv)
  then show ?thesis
    using assms(2) by (simp add: the_capacity_of_def values0_def)
qed

lemma the_capacity_of_absent:
  "\<forall>c \<in> set capacity_file. Resource c \<noteq> user_key \<Longrightarrow>
   the_capacity_of user_key capacity_file = Inl IndexError"
  by (simp add: the_capacity_of_def values0_def filter_empty_conv)

lemma the_capacity_of_cases:
  "the_capacity_of user_key capacity_file =
     (if \<exists>c \<in> set capacity_file. Resource c = user_key
      then Inr (capacity_row.Capacity (hd (filter (\<lambda>c. Resource c = user_key) capacity_file)))
      else Inl IndexError)"
  by (auto simp: the_capacity_of_def values0_def filter_empty_conv split: list.splits)

subsection \<open>The stages of \<^verbatim>\<open>process_data\<close> and the script\<close>

text \<open>
  Every accepted resource has a storage code, so line 119 does not raise. After lines 121
  to 129 each selected row carries the capacity looked up, gone through a double and back
  to \<^verbatim>\<open>int64\<close>. The conversion of
  the \<^verbatim>\<open>Date_Time\<close> column succeeds exactly when it succeeds on every row, and changes
  this column only.
\<close>

lemma keys_user_keys: "(\<exists>k. keys u = Some k) \<longleftrightarrow> u \<in> set user_keys"
  by (auto simp: keys_def user_keys_def split: if_splits)

lemma py_in_JobName: "s \<in> set df \<Longrightarrow> py_in (JobName s) (values_of df)"
  by (auto simp: py_in_def values_of_def)

lemma astype_int_fillna:
  "astype_int (fillna c (filter (\<lambda>r. Key r = k \<and> JobName r = j) (add_Capacity df)))
     = Inr (map (filled c) (filter (\<lambda>r. Key r = k \<and> JobName r = j) df))"
  by (induction df)
    (simp_all add: add_Capacity_def fillna_def float64_of_int_def filled_def stored_capacity_def)

lemma to_datetime_column_Inr:
  "to_datetime_column td rows = Inr out \<Longrightarrow>
   list_all2 (\<lambda>s r. Key r = Key s \<and> JobName r = JobName s \<and> TaskId r = TaskId s \<and>
      Start_Time r = Start_Time s \<and> STCK_Time r = STCK_Time s \<and>
      Current_Usage r = Current_Usage s \<and> td (Date_Time s) = Inr (Date_Time r) \<and>
      Capacity r = Capacity s) rows out"
proof (induction rows arbitrary: out)
  case Nil
  then show ?case by simp
next
  case (Cons r rs)
  from Cons.prems obtain t rs' where t: "td (Date_Time r) = Inr t"
    and rs': "to_datetime_column td rs = Inr rs'"
    by (auto split: sum.splits)
  with Cons.prems Cons.IH [OF rs'] show ?case by auto
qed

lemma to_datetime_column_total:
  "(\<And>r. r \<in> set rows \<Longrightarrow> \<exists>t. td (Date_Time r) = Inr t) \<Longrightarrow>
   \<exists>out. to_datetime_column td rows = Inr out"
proof (induction rows)
  case Nil
  then show ?case by simp
next
  case (Cons r rs)
  then obtain t where "td (Date_Time r) = Inr t" by auto
  moreover from Cons obtain rs' where "to_datetime_column td rs = Inr rs'" by auto
  ultimately show ?case by simp
qed

lemma list_all2_Start_Time:
  "list_all2 (\<lambda>s r. row_of td s r \<and> P r) src out \<Longrightarrow> map Start_Time out = map Start_Time src"
  by (induction rule: list_all2_induct) (simp_all add: row_of_def)

text \<open>
  The selection for an accepted resource, stage by stage, and what a returned frame is:
  the rows that \<^verbatim>\<open>get_latest_time\<close> keeps of the matching rows, each with its date
  converted and with the capacity looked up.
\<close>

lemma select_unfold:
  assumes "keys (upper resource) = Some k"
  shows "select td data caps job resource =
    (if \<not> py_in (pad (upper job)) (values_of data) then Inl JobNameDoesNotExist
     else case the_capacity_of (ljust (upper resource) COLUMN_CHAR_LEN) caps of
            Inl e \<Rightarrow> Inl e
          | Inr c \<Rightarrow>
              (case to_datetime_column td (map (filled c) (matching data job resource)) of
                 Inl e \<Rightarrow> Inl e
               | Inr rows \<Rightarrow> Inr (get_latest_time rows)))"
proof -
  have "upper resource \<in> set user_keys"
    using assms keys_user_keys by blast
  moreover have "matching data job resource
      = filter (\<lambda>r. Key r = k \<and> JobName r = pad (upper job)) data"
    using assms by (auto simp: matching_def intro: filter_cong)
  ultimately show ?thesis
    using assms
    by (simp add: select_def process_data_def astype_int_fillna Let_def split: sum.splits)
qed

lemma select_resource_invalid:
  "upper resource \<notin> set user_keys \<Longrightarrow> select td data caps job resource = Inl ResourceDoesNotExist"
  by (simp add: select_def)

lemma select_job_name_absent:
  assumes "upper resource \<in> set user_keys"
    and "\<not> py_in (pad (upper job_name)) (values_of data_file)"
  shows "select to_datetime data_file capacity_file job_name resource = Inl JobNameDoesNotExist"
  using assms by (simp add: select_def Let_def)

lemma select_Inr_D:
  assumes "select td data caps job resource = Inr out"
  obtains k c where "keys (upper resource) = Some k"
    and "py_in (pad (upper job)) (values_of data)"
    and "the_capacity_of (ljust (upper resource) COLUMN_CHAR_LEN) caps = Inr c"
    and "list_all2 (\<lambda>s r. row_of td s r \<and> Capacity r = stored_capacity c)
           (get_latest_time (matching data job resource)) out"
proof -
  have "upper resource \<in> set user_keys"
    using assms by (auto simp: select_def Let_def split: if_splits)
  then obtain k where k: "keys (upper resource) = Some k"
    using keys_user_keys by blast
  from assms obtain c rows where inv: "py_in (pad (upper job)) (values_of data)"
    and c: "the_capacity_of (ljust (upper resource) COLUMN_CHAR_LEN) caps = Inr c"
    and rows: "to_datetime_column td (map (filled c) (matching data job resource)) = Inr rows"
    and out: "out = get_latest_time rows"
    unfolding select_unfold [OF k] by (auto split: if_splits sum.splits)
  have "list_all2 (\<lambda>s r. row_of td s r \<and> Capacity r = stored_capacity c)
          (matching data job resource) rows"
    using to_datetime_column_Inr [OF rows]
    by (simp add: list_all2_map1 row_of_def filled_def)
  then have "list_all2 (\<lambda>s r. row_of td s r \<and> Capacity r = stored_capacity c)
          (get_latest_time (matching data job resource)) out"
    unfolding out by (rule list_all2_get_latest_time) (simp add: row_of_def)
  with k inv c show thesis by (rule that)
qed

text \<open>
  The job name enters the selection upper-cased and padded; doing so beforehand changes
  nothing.
\<close>

lemma upper_char_idem: "upper_char (upper_char c) = upper_char c"
  by (simp add: upper_char_def)

lemma upper_idem: "upper (upper s) = upper s"
  by (simp add: upper_def upper_char_idem)

lemma upper_ljust: "upper (ljust s w) = ljust (upper s) w"
  by (simp add: upper_def ljust_def upper_char_def)

lemma pad_upper_idem: "pad (upper (pad (upper s))) = pad (upper s)"
proof -
  have "upper (pad (upper s)) = pad (upper s)"
    by (simp add: pad_def upper_ljust upper_idem)
  moreover have "pad (pad (upper s)) = pad (upper s)"
    by (simp add: pad_def ljust_def COLUMN_CHAR_LEN_def)
  ultimately show ?thesis by simp
qed

lemma select_normalised_job_name:
  "select to_datetime data_file capacity_file (pad (upper job_name)) resource
     = select to_datetime data_file capacity_file job_name resource"
  by (simp add: select_def Let_def pad_upper_idem)

text \<open>
  When the capacity row is found, the column holds the capacity unchanged, some row matches
  and the dates of the matching rows convert, the selection returns a series that is not
  empty; every row of it has the capacity, the key, the padded job name and one start
  time, the greatest of the matching rows; and every row is a matching row with its date
  converted and its usage unchanged.
\<close>

lemma select_returns_series:
  assumes "keys (upper resource) = Some k"
    and "the_capacity_of (ljust (upper resource) COLUMN_CHAR_LEN) capacity_file = Inr c"
    and "stored_capacity c = c"
    and "matching data_file job_name resource \<noteq> []"
    and "\<forall>s \<in> set (matching data_file job_name resource). \<exists>t. to_datetime (Date_Time s) = Inr t"
  shows "\<exists>out. select to_datetime data_file capacity_file job_name resource = Inr out \<and>
           out \<noteq> [] \<and>
           (\<forall>r \<in> set out. Capacity r = c \<and> Key r = k \<and> JobName r = pad (upper job_name) \<and>
              Start_Time r = Max (Start_Time ` set (matching data_file job_name resource))) \<and>
           list_all2 (row_of to_datetime)
             (get_latest_time (matching data_file job_name resource)) out"
proof -
  let ?m = "matching data_file job_name resource"
  let ?R = "\<lambda>s r. row_of to_datetime s r \<and> Capacity r = stored_capacity c"
  from assms(4) obtain s where s: "s \<in> set ?m" by (cases ?m) auto
  then have "s \<in> set data_file" and "JobName s = pad (upper job_name)"
    by (simp_all add: matching_def)
  then have inv: "py_in (pad (upper job_name)) (values_of data_file)"
    using py_in_JobName by metis
  have "\<exists>rows. to_datetime_column to_datetime (map (filled c) ?m) = Inr rows"
    using assms(5) by (intro to_datetime_column_total) (auto simp: filled_def)
  then obtain rows where
    rows: "to_datetime_column to_datetime (map (filled c) ?m) = Inr rows" ..
  let ?out = "get_latest_time rows"
  have sel: "select to_datetime data_file capacity_file job_name resource = Inr ?out"
    using inv assms(2) rows by (simp add: select_unfold [OF assms(1)])
  from sel obtain k' c' where "the_capacity_of (ljust (upper resource) COLUMN_CHAR_LEN) capacity_file = Inr c'"
    and "list_all2 (\<lambda>s r. row_of to_datetime s r \<and> Capacity r = stored_capacity c')
           (get_latest_time ?m) ?out"
    by (rule select_Inr_D)
  with assms(2) have rel: "list_all2 ?R (get_latest_time ?m) ?out" by simp
  have ne: "?out \<noteq> []"
    using rel get_latest_time_nonempty [OF assms(4)] by auto
  have each: "Capacity r = c \<and> Key r = k \<and> JobName r = pad (upper job_name) \<and>
      Start_Time r = Max (Start_Time ` set ?m)" if "r \<in> set ?out" for r
  proof -
    from list_all2_set2 [OF rel that]
    obtain s where s: "s \<in> set (get_latest_time ?m)" and R: "?R s r" by blast
    from s have "s \<in> set ?m"
      by (rule set_get_latest_time)
    then have "Key s = k" "JobName s = pad (upper job_name)"
      using assms(1) by (simp_all add: matching_def)
    moreover have "Start_Time s = Max (Start_Time ` set ?m)"
      using s by (rule get_latest_time_Max)
    ultimately show ?thesis
      using R assms(3) by (simp add: row_of_def)
  qed
  have "list_all2 (row_of to_datetime) (get_latest_time ?m) ?out"
    using rel by (rule list_all2_mono) simp
  with sel ne each show ?thesis by blast
qed

text \<open>The example, evaluated.\<close>

lemma example_select:
  "select to_datetime_YmdHMS [row1, row2, row3] [jqe_1000] ''JOB1'' ''JQE'' = Inr [row3_selected]"
  by code_simp

lemma example_matching:
  "matching [row1, row2, row3] ''JOB1'' ''JQE'' = [row1, row2, row3]"
  by code_simp

lemma example_dates:
  "to_datetime_YmdHMS (Date_Time row1) = Inr (Date_Time row1_selected)"
  "to_datetime_YmdHMS (Date_Time row2) = Inr (Date_Time row2_selected)"
  "to_datetime_YmdHMS (Date_Time row3) = Inr (Date_Time row3_selected)"
  by code_simp+

subsection \<open>The properties C1 to C10 of the specification\<close>

text \<open>
  C1. For the three observation rows and the capacity row of the example, the selection
  for job name \<^verbatim>\<open>JOB1\<close> and resource \<^verbatim>\<open>JQE\<close> returns exactly one row, the third one, with
  date and time 2021-01-01 00:02:00, usage 50 and capacity 1000: only the rows with start
  time \<^verbatim>\<open>200\<close>, the maximum, are kept.
\<close>

theorem C1_end_to_end:
  "select to_datetime_YmdHMS [row1, row2, row3] [jqe_1000] ''JOB1'' ''JQE''
     = Inr [row3_selected]"
  by code_simp

text \<open>
  C2. Every row of a returned series should carry the capacity looked up. The script
  creates the \<^verbatim>\<open>Capacity\<close> column as float64 (\<^verbatim>\<open>np.nan\<close>, line 121), fills it with the
  integer capacity (line 128) and casts it back with \<^verbatim>\<open>astype(int)\<close> (line 129), so the
  capacity goes through a double. For the capacity 9007199254740993, which is
  \<open>2 ^ 53 + 1\<close> and no double, the one row that is returned holds 9007199254740992.
  (Where the column holds the capacity unchanged, \<open>select_returns_series\<close> above gives the
  rest of the property.)
\<close>

theorem C2_capacity_through_float64:
  "the_capacity_of (ljust (upper ''JQE'') COLUMN_CHAR_LEN) [jqe_big] = Inr 9007199254740993 \<and>
   select to_datetime_YmdHMS [row3] [jqe_big] ''JOB1'' ''JQE'' = Inr [row3_selected_big] \<and>
   Capacity row3_selected_big \<noteq> 9007199254740993"
  by code_simp

text \<open>
  C3. Cohort deduplication: when more than one distinct \<^verbatim>\<open>Start_Time\<close> is present,
  \<^verbatim>\<open>get_latest_time\<close> keeps exactly the rows whose \<^verbatim>\<open>Start_Time\<close> is the maximum of the
  start times present, in the order of the raw strings, and it keeps all of these rows;
  when at most one distinct \<^verbatim>\<open>Start_Time\<close> is present, all rows are kept.
\<close>

theorem C3_cohort_deduplication:
  "get_latest_time rows =
     (if 1 < card (Start_Time ` set rows)
      then filter (\<lambda>r. Start_Time r = Max (Start_Time ` set rows)) rows
      else rows)"
  by (rule get_latest_time_eq)

text \<open>The theorem at the three rows of the example, which have two start times.\<close>

theorem C3_cohort_deduplication_witness:
  "get_latest_time [row1, row2, row3] = [row3] \<and>
   card (Start_Time ` set [row1, row2, row3]) = 2 \<and>
   Max (Start_Time ` set [row1, row2, row3]) = ''200''"
proof -
  have c: "card (Start_Time ` set [row1, row2, row3]) = 2" by code_simp
  have m: "Max (Start_Time ` set [row1, row2, row3]) = ''200''" by code_simp
  have f: "filter (\<lambda>r. Start_Time r = ''200'') [row1, row2, row3] = [row3]" by code_simp
  have "get_latest_time [row1, row2, row3] = [row3]"
    unfolding C3_cohort_deduplication [of "[row1, row2, row3]"] c m f by simp
  with c m show ?thesis by (intro conjI)
qed

text \<open>
  C4. Cohort deduplication is idempotent on what the selection returns: applying
  \<^verbatim>\<open>get_latest_time\<close> to a returned frame gives the frame back, and the start time of
  every returned row is the maximum of the start times of the rows matching the key and the
  job name.
\<close>

theorem C4_deduplication_idempotent:
  assumes "select to_datetime data_file capacity_file job_name resource = Inr out"
  shows "get_latest_time out = out \<and>
         (\<forall>r \<in> set out.
            Start_Time r = Max (Start_Time ` set (matching data_file job_name resource)))"
proof -
  let ?m = "matching data_file job_name resource"
  from assms obtain k c where
    rel: "list_all2 (\<lambda>s r. row_of to_datetime s r \<and> Capacity r = stored_capacity c)
            (get_latest_time ?m) out"
    by (rule select_Inr_D)
  then have st: "map Start_Time out = map Start_Time (get_latest_time ?m)"
    by (rule list_all2_Start_Time)
  then have "set (map Start_Time out) = set (map Start_Time (get_latest_time ?m))"
    by simp
  then have img: "Start_Time ` set out = Start_Time ` set (get_latest_time ?m)"
    by simp
  have "card (Start_Time ` set out) \<le> 1"
    unfolding img by (rule card_get_latest_time)
  then have idem: "get_latest_time out = out"
    by (simp add: get_latest_time_eq)
  have "Start_Time r = Max (Start_Time ` set ?m)" if "r \<in> set out" for r
  proof -
    from that have "Start_Time r \<in> Start_Time ` set (get_latest_time ?m)"
      unfolding img [symmetric] by simp
    then show ?thesis
      using get_latest_time_Max by auto
  qed
  with idem show ?thesis by blast
qed

text \<open>The theorem at the end-to-end example.\<close>

theorem C4_deduplication_idempotent_witness:
  "select to_datetime_YmdHMS [row1, row2, row3] [jqe_1000] ''JOB1'' ''JQE'' = Inr [row3_selected] \<and>
   get_latest_time [row3_selected] = [row3_selected] \<and>
   Start_Time row3_selected
     = Max (Start_Time ` set (matching [row1, row2, row3] ''JOB1'' ''JQE''))"
  using C4_deduplication_idempotent [OF example_select] example_select by simp

text \<open>
  C5. The job name is upper-cased and padded with blanks to eight characters, and it is
  compared in this form. Both \<^verbatim>\<open>job3\<close> and \<^verbatim>\<open>JOB3\<close> followed by four blanks become
  \<^verbatim>\<open>JOB3\<close> followed by four blanks. For every pair of files and every resource the two
  selections are the same, namely: the script run with this padded name in the test of
  line 115 and in \<^verbatim>\<open>process_data\<close>; and a returned series consists of the rows that
  \<^verbatim>\<open>get_latest_time\<close> keeps of the rows whose \<^verbatim>\<open>JobName\<close> is this padded name (and whose
  \<^verbatim>\<open>Key\<close> is the storage code).
\<close>

theorem C5_job_name_case_and_width:
  "pad (upper ''job3'') = ''JOB3    '' \<and>
   pad (upper ''JOB3    '') = ''JOB3    '' \<and>
   select to_datetime data_file capacity_file ''job3'' resource
     = select to_datetime data_file capacity_file ''JOB3    '' resource \<and>
   select to_datetime data_file capacity_file ''job3'' resource
     = (if upper resource \<notin> set user_keys then Inl ResourceDoesNotExist
        else if \<not> py_in ''JOB3    '' (values_of data_file) then Inl JobNameDoesNotExist
        else case keys (upper resource) of
               None \<Rightarrow> Inl KeyError
             | Some key \<Rightarrow>
                 process_data to_datetime (ljust (upper resource) COLUMN_CHAR_LEN) key
                   ''JOB3    '' (add_Capacity data_file) capacity_file) \<and>
   (\<forall>out. select to_datetime data_file capacity_file ''job3'' resource = Inr out \<longrightarrow>
      list_all2 (row_of to_datetime)
        (get_latest_time
           (filter (\<lambda>r. keys (upper resource) = Some (Key r) \<and> JobName r = ''JOB3    '')
              data_file)) out)"
proof -
  have low: "pad (upper ''job3'') = ''JOB3    ''" by code_simp
  have up: "pad (upper ''JOB3    '') = ''JOB3    ''" by code_simp
  have eq: "select to_datetime data_file capacity_file ''job3'' resource
      = select to_datetime data_file capacity_file ''JOB3    '' resource"
    by (simp add: select_def Let_def low up)
  have run: "select to_datetime data_file capacity_file ''job3'' resource
      = (if upper resource \<notin> set user_keys then Inl ResourceDoesNotExist
         else if \<not> py_in ''JOB3    '' (values_of data_file) then Inl JobNameDoesNotExist
         else case keys (upper resource) of
                None \<Rightarrow> Inl KeyError
              | Some key \<Rightarrow>
                  process_data to_datetime (ljust (upper resource) COLUMN_CHAR_LEN) key
                    ''JOB3    '' (add_Capacity data_file) capacity_file)"
    by (simp add: select_def Let_def low split: option.splits)
  have rows: "list_all2 (row_of to_datetime)
      (get_latest_time
         (filter (\<lambda>r. keys (upper resource) = Some (Key r) \<and> JobName r = ''JOB3    '')
            data_file)) out"
    if "select to_datetime data_file capacity_file ''job3'' resource = Inr out" for out
  proof -
    from that obtain k c where
      "list_all2 (\<lambda>s r. row_of to_datetime s r \<and> Capacity r = stored_capacity c)
         (get_latest_time (matching data_file ''job3'' resource)) out"
      by (rule select_Inr_D)
    then have "list_all2 (row_of to_datetime)
        (get_latest_time (matching data_file ''job3'' resource)) out"
      by (rule list_all2_mono) simp
    then show ?thesis
      by (simp add: matching_def low)
  qed
  from low up eq run rows show ?thesis by blast
qed

text \<open>
  The theorem at a file with a row of \<^verbatim>\<open>JOB1\<close> and a row of \<^verbatim>\<open>JOB3\<close>: both spellings
  select the row of \<^verbatim>\<open>JOB3\<close>.
\<close>

theorem C5_job_name_case_and_width_witness:
  "select to_datetime_YmdHMS [row1, row_job3] [jqe_1000] ''job3'' ''JQE''
     = Inr [row_job3_selected] \<and>
   select to_datetime_YmdHMS [row1, row_job3] [jqe_1000] ''JOB3    '' ''JQE''
     = Inr [row_job3_selected] \<and>
   get_latest_time
     (filter (\<lambda>r. keys (upper ''JQE'') = Some (Key r) \<and> JobName r = ''JOB3    '')
        [row1, row_job3]) = [row_job3] \<and>
   list_all2 (row_of to_datetime_YmdHMS) [row_job3] [row_job3_selected]"
proof -
  have s: "select to_datetime_YmdHMS [row1, row_job3] [jqe_1000] ''job3'' ''JQE''
      = Inr [row_job3_selected]"
    by code_simp
  have g: "get_latest_time
      (filter (\<lambda>r. keys (upper ''JQE'') = Some (Key r) \<and> JobName r = ''JOB3    '')
         [row1, row_job3]) = [row_job3]"
    by code_simp
  from C5_job_name_case_and_width
    [of to_datetime_YmdHMS "[row1, row_job3]" "[jqe_1000]" "''JQE''"]
  have eq: "select to_datetime_YmdHMS [row1, row_job3] [jqe_1000] ''job3'' ''JQE''
      = select to_datetime_YmdHMS [row1, row_job3] [jqe_1000] ''JOB3    '' ''JQE''"
    and rows: "\<forall>out. select to_datetime_YmdHMS [row1, row_job3] [jqe_1000] ''job3'' ''JQE''
        = Inr out \<longrightarrow>
      list_all2 (row_of to_datetime_YmdHMS)
        (get_latest_time
           (filter (\<lambda>r. keys (upper ''JQE'') = Some (Key r) \<and> JobName r = ''JOB3    '')
              [row1, row_job3])) out"
    by blast+
  from eq s have s': "select to_datetime_YmdHMS [row1, row_job3] [jqe_1000] ''JOB3    '' ''JQE''
      = Inr [row_job3_selected]"
    by simp
  from rows s have "list_all2 (row_of to_datetime_YmdHMS)
      (get_latest_time
         (filter (\<lambda>r. keys (upper ''JQE'') = Some (Key r) \<and> JobName r = ''JOB3    '')
            [row1, row_job3])) [row_job3_selected]"
    by blast
  then have r: "list_all2 (row_of to_datetime_YmdHMS) [row_job3] [row_job3_selected]"
    unfolding g .
  from s s' g r show ?thesis by (intro conjI)
qed

text \<open>
  C6. The first matching row of the capacity file wins: when a row \<open>c\<close> has the padded
  resource name and no row before it has, the capacity looked up is the one of \<open>c\<close>,
  whatever rows follow; and when this capacity is of magnitude at most \<open>2 ^ 53\<close>, every
  row of a returned series carries it.
\<close>

theorem C6_first_capacity_row_wins:
  assumes "capacity_file = before @ c # after"
    and "\<forall>b \<in> set before. Resource b \<noteq> ljust (upper resource) COLUMN_CHAR_LEN"
    and "Resource c = ljust (upper resource) COLUMN_CHAR_LEN"
  shows "the_capacity_of (ljust (upper resource) COLUMN_CHAR_LEN) capacity_file
           = Inr (capacity_row.Capacity c) \<and>
         (\<bar>capacity_row.Capacity c\<bar> \<le> 2 ^ 53 \<longrightarrow>
            (\<forall>out. select to_datetime data_file capacity_file job_name resource = Inr out \<longrightarrow>
               (\<forall>r \<in> set out. Capacity r = capacity_row.Capacity c)))"
proof -
  have cap: "the_capacity_of (ljust (upper resource) COLUMN_CHAR_LEN) capacity_file
      = Inr (capacity_row.Capacity c)"
    unfolding assms(1) using assms(2,3) by (rule the_capacity_of_first)
  have "Capacity r = capacity_row.Capacity c"
    if bound: "\<bar>capacity_row.Capacity c\<bar> \<le> 2 ^ 53"
      and sel: "select to_datetime data_file capacity_file job_name resource = Inr out"
      and r: "r \<in> set out" for out r
  proof -
    from sel obtain k c' where
      c': "the_capacity_of (ljust (upper resource) COLUMN_CHAR_LEN) capacity_file = Inr c'"
      and rel: "list_all2 (\<lambda>s r. row_of to_datetime s r \<and> Capacity r = stored_capacity c')
            (get_latest_time (matching data_file job_name resource)) out"
      by (rule select_Inr_D)
    from list_all2_set2 [OF rel r] have "Capacity r = stored_capacity c'" by blast
    with cap c' have "Capacity r = stored_capacity (capacity_row.Capacity c)" by simp
    with stored_capacity_exact [OF bound] show ?thesis by simp
  qed
  with cap show ?thesis by blast
qed

text \<open>The theorem at a capacity file with two rows for \<^verbatim>\<open>JQE\<close>.\<close>

theorem C6_first_capacity_row_wins_witness:
  "[spool_500, jqe_1000, jqe_2000] = [spool_500] @ jqe_1000 # [jqe_2000] \<and>
   Resource spool_500 \<noteq> ljust (upper ''JQE'') COLUMN_CHAR_LEN \<and>
   Resource jqe_1000 = ljust (upper ''JQE'') COLUMN_CHAR_LEN \<and>
   Resource jqe_2000 = ljust (upper ''JQE'') COLUMN_CHAR_LEN \<and>
   \<bar>capacity_row.Capacity jqe_1000\<bar> \<le> 2 ^ 53 \<and>
   the_capacity_of (ljust (upper ''JQE'') COLUMN_CHAR_LEN) [spool_500, jqe_1000, jqe_2000]
     = Inr 1000 \<and>
   select to_datetime_YmdHMS [row1, row2, row3] [spool_500, jqe_1000, jqe_2000] ''JOB1'' ''JQE''
     = Inr [row3_selected] \<and>
   Capacity row3_selected = 1000"
proof -
  have a: "[spool_500, jqe_1000, jqe_2000] = [spool_500] @ jqe_1000 # [jqe_2000]" by simp
  have b: "Resource spool_500 \<noteq> ljust (upper ''JQE'') COLUMN_CHAR_LEN" by code_simp
  then have b': "\<forall>b \<in> set [spool_500]. Resource b \<noteq> ljust (upper ''JQE'') COLUMN_CHAR_LEN"
    by simp
  have c: "Resource jqe_1000 = ljust (upper ''JQE'') COLUMN_CHAR_LEN" by code_simp
  have d: "Resource jqe_2000 = ljust (upper ''JQE'') COLUMN_CHAR_LEN" by code_simp
  have v: "capacity_row.Capacity jqe_1000 = 1000" by (simp add: jqe_1000_def)
  have bd: "\<bar>capacity_row.Capacity jqe_1000\<bar> \<le> 2 ^ 53" by (simp add: v)
  have s: "select to_datetime_YmdHMS [row1, row2, row3] [spool_500, jqe_1000, jqe_2000]
      ''JOB1'' ''JQE'' = Inr [row3_selected]"
    by code_simp
  from C6_first_capacity_row_wins [OF a b' c, of to_datetime_YmdHMS "[row1, row2, row3]" "''JOB1''"]
  have cap: "the_capacity_of (ljust (upper ''JQE'') COLUMN_CHAR_LEN) [spool_500, jqe_1000, jqe_2000]
      = Inr (capacity_row.Capacity jqe_1000)"
    and sel: "\<bar>capacity_row.Capacity jqe_1000\<bar> \<le> 2 ^ 53 \<longrightarrow>
      (\<forall>out. select to_datetime_YmdHMS [row1, row2, row3] [spool_500, jqe_1000, jqe_2000]
          ''JOB1'' ''JQE'' = Inr out \<longrightarrow>
        (\<forall>r \<in> set out. Capacity r = capacity_row.Capacity jqe_1000))"
    by blast+
  from sel bd s have "\<forall>r \<in> set [row3_selected]. Capacity r = capacity_row.Capacity jqe_1000"
    by blast
  then have r: "Capacity row3_selected = 1000"
    unfolding v by simp
  from cap have cap': "the_capacity_of (ljust (upper ''JQE'') COLUMN_CHAR_LEN)
      [spool_500, jqe_1000, jqe_2000] = Inr 1000"
    unfolding v .
  from a b c d bd cap' s r show ?thesis
    by (intro conjI)
qed

text \<open>
  C7. The test of line 115 looks for the job name in every cell of the observation file,
  not in the column \<^verbatim>\<open>JobName\<close>. For a file whose only row belongs to job \<^verbatim>\<open>JOBX\<close> and
  has the task identifier \<^verbatim>\<open>JOBY\<close> padded to eight characters, the selection for the job
  name \<^verbatim>\<open>JOBY\<close> passes the test, although no row has this job name, and returns an empty
  frame. (When no cell is equal to the job name, \<open>select_job_name_absent\<close> above gives the
  exception of line 116, whatever the capacity file holds.)
\<close>

theorem C7_job_name_in_another_column:
  "pad (upper ''JOBY'') = ''JOBY    '' \<and>
   JobName row_jobx = ''JOBX    '' \<and>
   TaskId row_jobx = ''JOBY    '' \<and>
   select to_datetime_YmdHMS [row_jobx] [jqe_1000] ''JOBY'' ''JQE'' = Inr []"
  by code_simp

text \<open>
  C8. When no row of the capacity file has the padded resource name, the selection for an
  accepted resource fails with a NotFound error: \<^verbatim>\<open>process_data\<close> raises \<^verbatim>\<open>IndexError\<close> at
  line 126 whatever the frame, the key, the job name and the conversion of dates are, that
  is before the rows are selected at line 127; the script raises this error, or before it
  the exception of line 116 when the job name is in no cell of the observation file.
\<close>

theorem C8_missing_capacity_row:
  assumes "upper resource \<in> set user_keys"
    and "\<forall>c \<in> set capacity_file. Resource c \<noteq> ljust (upper resource) COLUMN_CHAR_LEN"
  shows "process_data to_datetime (ljust (upper resource) COLUMN_CHAR_LEN) key jobName frame
           capacity_file = Inl IndexError \<and>
         select to_datetime data_file capacity_file job_name resource
           = Inl (if py_in (pad (upper job_name)) (values_of data_file)
                  then IndexError else JobNameDoesNotExist) \<and>
         (\<exists>e. select to_datetime data_file capacity_file job_name resource = Inl e \<and> NotFound e)"
proof -
  have cap: "the_capacity_of (ljust (upper resource) COLUMN_CHAR_LEN) capacity_file = Inl IndexError"
    using assms(2) by (rule the_capacity_of_absent)
  then have pd: "process_data to_datetime (ljust (upper resource) COLUMN_CHAR_LEN) key jobName
      frame capacity_file = Inl IndexError"
    by (simp add: process_data_def)
  from assms(1) obtain k where k: "keys (upper resource) = Some k"
    using keys_user_keys by blast
  have sel: "select to_datetime data_file capacity_file job_name resource
      = Inl (if py_in (pad (upper job_name)) (values_of data_file)
             then IndexError else JobNameDoesNotExist)"
    by (simp add: select_unfold [OF k] cap)
  then have "\<exists>e. select to_datetime data_file capacity_file job_name resource = Inl e \<and> NotFound e"
    by (simp add: NotFound_def)
  with pd sel show ?thesis by blast
qed

text \<open>The theorem at a capacity file without a row for \<^verbatim>\<open>BERT\<close>.\<close>

theorem C8_missing_capacity_row_witness:
  "upper ''BERT'' \<in> set user_keys \<and>
   Resource jqe_1000 \<noteq> ljust (upper ''BERT'') COLUMN_CHAR_LEN \<and>
   Resource spool_500 \<noteq> ljust (upper ''BERT'') COLUMN_CHAR_LEN \<and>
   py_in (pad (upper ''JOB1'')) (values_of [row1, row2, row3]) \<and>
   select to_datetime_YmdHMS [row1, row2, row3] [jqe_1000, spool_500] ''JOB1'' ''BERT''
     = Inl IndexError \<and>
   NotFound IndexError"
proof -
  have u: "upper ''BERT'' \<in> set user_keys" by code_simp
  have a: "Resource jqe_1000 \<noteq> ljust (upper ''BERT'') COLUMN_CHAR_LEN" by code_simp
  have b: "Resource spool_500 \<noteq> ljust (upper ''BERT'') COLUMN_CHAR_LEN" by code_simp
  have p: "py_in (pad (upper ''JOB1'')) (values_of [row1, row2, row3])" by code_simp
  from a b have ab: "\<forall>c \<in> set [jqe_1000, spool_500].
      Resource c \<noteq> ljust (upper ''BERT'') COLUMN_CHAR_LEN"
    by simp
  from C8_missing_capacity_row [OF u ab, of to_datetime_YmdHMS _ _ _ "[row1, row2, row3]" "''JOB1''"]
  have "select to_datetime_YmdHMS [row1, row2, row3] [jqe_1000, spool_500] ''JOB1'' ''BERT''
      = Inl (if py_in (pad (upper ''JOB1'')) (values_of [row1, row2, row3])
             then IndexError else JobNameDoesNotExist)"
    by blast
  then have s: "select to_datetime_YmdHMS [row1, row2, row3] [jqe_1000, spool_500] ''JOB1'' ''BERT''
      = Inl IndexError"
    using p by (simp only: if_True)
  have n: "NotFound IndexError" by (simp add: NotFound_def)
  from u a b p s n show ?thesis by (intro conjI)
qed

text \<open>
  C9, as the code has it. When no row matches the key and the padded job name, but some
  row has the padded job name (under another key), the selection for an accepted resource
  returns the empty frame if the capacity file has a row for the resource, and it raises
  \<^verbatim>\<open>IndexError\<close> at line 126 if it has none. The script has no test for an empty selection.
\<close>

theorem C9_empty_filter:
  assumes "keys (upper resource) = Some k"
    and "matching data_file job_name resource = []"
    and "\<exists>s \<in> set data_file. JobName s = pad (upper job_name)"
  shows "select to_datetime data_file capacity_file job_name resource =
           (if \<exists>c \<in> set capacity_file. Resource c = ljust (upper resource) COLUMN_CHAR_LEN
            then Inr [] else Inl IndexError)"
proof -
  from assms(3) have inv: "py_in (pad (upper job_name)) (values_of data_file)"
    using py_in_JobName by metis
  have glt: "get_latest_time ([] :: (_, int) frame list) = []"
    by (simp add: get_latest_time_def)
  show ?thesis
    by (simp add: select_unfold [OF assms(1)] inv assms(2) glt
          the_capacity_of_cases [of "ljust (upper resource) COLUMN_CHAR_LEN"])
qed

text \<open>The theorem at a file whose only row of \<^verbatim>\<open>JOB1\<close> is recorded for \<^verbatim>\<open>SPOOL\<close>.\<close>

theorem C9_empty_filter_witness:
  "keys (upper ''JQE'') = Some ''Q'' \<and>
   matching [row_spool] ''JOB1'' ''JQE'' = [] \<and>
   JobName row_spool = pad (upper ''JOB1'') \<and>
   Resource jqe_1000 = ljust (upper ''JQE'') COLUMN_CHAR_LEN \<and>
   select to_datetime_YmdHMS [row_spool] [jqe_1000] ''JOB1'' ''JQE'' = Inr []"
proof -
  have k: "keys (upper ''JQE'') = Some ''Q''" by code_simp
  have m: "matching [row_spool] ''JOB1'' ''JQE'' = []" by code_simp
  have j: "JobName row_spool = pad (upper ''JOB1'')" by code_simp
  have c: "Resource jqe_1000 = ljust (upper ''JQE'') COLUMN_CHAR_LEN" by code_simp
  from j have j': "\<exists>s \<in> set [row_spool]. JobName s = pad (upper ''JOB1'')" by simp
  from c have c': "\<exists>c \<in> set [jqe_1000]. Resource c = ljust (upper ''JQE'') COLUMN_CHAR_LEN"
    by simp
  from C9_empty_filter [OF k m j', of to_datetime_YmdHMS "[jqe_1000]"]
  have s: "select to_datetime_YmdHMS [row_spool] [jqe_1000] ''JOB1'' ''JQE'' = Inr []"
    using c' by (simp only: if_True)
  from k m j c s show ?thesis by (intro conjI)
qed

text \<open>
  For this file the selection by key and job name for \<^verbatim>\<open>JOB1\<close> and \<^verbatim>\<open>JQE\<close> is empty
  and the selection does not fail: it returns the empty frame.
\<close>

theorem C9_empty_filter_counterexample:
  "matching [row_spool] ''JOB1'' ''JQE'' = [] \<and>
   select to_datetime_YmdHMS [row_spool] [jqe_1000] ''JOB1'' ''JQE'' = Inr []"
  by code_simp

text \<open>
  C10. The selection keeps the order of the observation file: the matching rows are a
  subsequence of the file, the rows kept by \<^verbatim>\<open>get_latest_time\<close> are a subsequence of the
  matching rows, and the returned frame consists of these rows, one by one in this order,
  each with its date converted. No stage sorts.
\<close>

theorem C10_source_order_preserved:
  assumes "select to_datetime data_file capacity_file job_name resource = Inr out"
  shows "subseq (matching data_file job_name resource) data_file \<and>
         subseq (get_latest_time (matching data_file job_name resource))
           (matching data_file job_name resource) \<and>
         list_all2 (row_of to_datetime)
           (get_latest_time (matching data_file job_name resource)) out"
proof -
  from assms obtain k c where
    "list_all2 (\<lambda>s r. row_of to_datetime s r \<and> Capacity r = stored_capacity c)
       (get_latest_time (matching data_file job_name resource)) out"
    by (rule select_Inr_D)
  then have "list_all2 (row_of to_datetime)
      (get_latest_time (matching data_file job_name resource)) out"
    by (rule list_all2_mono) simp
  moreover have "subseq (matching data_file job_name resource) data_file"
    by (simp add: matching_def)
  ultimately show ?thesis
    using subseq_get_latest_time by blast
qed

text \<open>
  The theorem at a file whose rows are not in the order of their dates: the row of
  00:01:00 comes first and stays first.
\<close>

theorem C10_source_order_preserved_witness:
  "select to_datetime_YmdHMS [row2, row_spool, row1] [jqe_1000] ''JOB1'' ''JQE''
     = Inr [row2_selected, row1_selected] \<and>
   subseq (matching [row2, row_spool, row1] ''JOB1'' ''JQE'') [row2, row_spool, row1] \<and>
   subseq (get_latest_time (matching [row2, row_spool, row1] ''JOB1'' ''JQE''))
     (matching [row2, row_spool, row1] ''JOB1'' ''JQE'') \<and>
   get_latest_time (matching [row2, row_spool, row1] ''JOB1'' ''JQE'') = [row2, row1] \<and>
   list_all2 (row_of to_datetime_YmdHMS) [row2, row1] [row2_selected, row1_selected]"
proof -
  have s: "select to_datetime_YmdHMS [row2, row_spool, row1] [jqe_1000] ''JOB1'' ''JQE''
      = Inr [row2_selected, row1_selected]"
    by code_simp
  have g: "get_latest_time (matching [row2, row_spool, row1] ''JOB1'' ''JQE'') = [row2, row1]"
    by code_simp
  from C10_source_order_preserved [OF s]
  have a: "subseq (matching [row2, row_spool, row1] ''JOB1'' ''JQE'') [row2, row_spool, row1]"
    and b: "subseq (get_latest_time (matching [row2, row_spool, row1] ''JOB1'' ''JQE''))
      (matching [row2, row_spool, row1] ''JOB1'' ''JQE'')"
    and c: "list_all2 (row_of to_datetime_YmdHMS)
      (get_latest_time (matching [row2, row_spool, row1] ''JOB1'' ''JQE''))
      [row2_selected, row1_selected]"
    by blast+
  from c have c': "list_all2 (row_of to_datetime_YmdHMS) [row2, row1] [row2_selected, row1_selected]"
    unfolding g .
  from s a b g c' show ?thesis by (intro conjI)
qed

end
